theory Spec2Isabelle
  imports Main
begin

section \<open>The draft-room server of \<open>src/server.js\<close>\<close>

text \<open>
  The server keeps two global maps (\<open>games\<close>: room code to game state, \<open>players\<close>:
  socket id to participant record) and one \<open>setInterval\<close> timer per call of
  \<open>startTimerBroadcast\<close>. Node runs every handler and every timer callback to
  completion before the next one starts, so each of them is a function from the server
  state to the new server state and the list of messages it emitted, in order.
  \<open>Date.now()\<close> and \<open>Math.random()\<close> are inputs of the handlers that read them.
\<close>

subsection \<open>JavaScript values\<close>

text \<open>
  The values a client can put into an event field (\<open>JUndefined\<close> for a field that is
  missing). Numbers are the integers; a non-integer number is truthy as every non-zero
  integer is.
\<close>

datatype jsval =
    JUndefined
  | JNull
  | JBool bool
  | JNum int
  | JStr string
  | JObj "(string \<times> jsval) list"

text \<open>What \<open>if (v)\<close>, \<open>!v\<close> and \<open>v || w\<close> test.\<close>

fun truthy :: "jsval \<Rightarrow> bool" where
  "truthy JUndefined = False"
| "truthy JNull = False"
| "truthy (JBool b) = b"
| "truthy (JNum n) = (n \<noteq> 0)"
| "truthy (JStr s) = (s \<noteq> [])"
| "truthy (JObj fs) = True"

definition js_or :: "jsval \<Rightarrow> jsval \<Rightarrow> jsval" where
  "js_or v w = (if truthy v then v else w)"

text \<open>The decimal digits of a number, for the template literal \<open>`Player ${playerId}`\<close>.\<close>

definition decimal_digit :: "nat \<Rightarrow> char" where
  "decimal_digit d = ''0123456789'' ! d"

fun string_of_nat :: "nat \<Rightarrow> string" where
  "string_of_nat n =
     (if n < 10 then [decimal_digit n]
      else string_of_nat (n div 10) @ [decimal_digit (n mod 10)])"

declare string_of_nat.simps [simp del]

definition string_of_int :: "int \<Rightarrow> string" where
  "string_of_int i = (if i < 0 then CHR ''-'' # string_of_nat (nat (- i)) else string_of_nat (nat i))"

subsection \<open>The data model\<close>

type_synonym socket_id = string

text \<open>
  A roster is a plain object \<open>{}\<close>: its own properties, by property key. The
  \<open>positionId\<close> of an event stands here as the property key JavaScript derives from
  it. A key that is not an own property is looked up on \<open>Object.prototype\<close>, whose
  properties are functions (and, for \<open>__proto__\<close>, the prototype object): all truthy.
\<close>

type_synonym roster = "string \<rightharpoonup> jsval"

definition Object_prototype_keys :: "string list" where
  "Object_prototype_keys =
     [''constructor'', ''__defineGetter__'', ''__defineSetter__'', ''hasOwnProperty'',
      ''__lookupGetter__'', ''__lookupSetter__'', ''isPrototypeOf'',
      ''propertyIsEnumerable'', ''toString'', ''valueOf'', ''__proto__'',
      ''toLocaleString'']"

text \<open>The test \<open>if (gameState.rosters[playerId][positionId])\<close> on a roster.\<close>

definition slot_truthy :: "roster \<Rightarrow> string \<Rightarrow> bool" where
  "slot_truthy r k =
     (case r k of Some v \<Rightarrow> truthy v | None \<Rightarrow> k \<in> set Object_prototype_keys)"

text \<open>An occupant \<open>{ id, name, ready }\<close> of a seat.\<close>

record occupant =
  occ_id :: socket_id
  occ_name :: jsval
  ready :: bool

text \<open>
  The game state of a room. \<open>players\<close> and \<open>rosters\<close> are objects keyed by the seat
  number: \<open>None\<close> is a key the object does not have, and in \<open>players\<close> the value
  \<open>Some None\<close> is \<open>null\<close>. \<open>timerEndTime\<close> is \<open>null\<close> (\<open>None\<close>) or a time in
  milliseconds.
\<close>

record game_state =
  roomCode :: string
  players :: "int \<rightharpoonup> occupant option"
  rosters :: "int \<rightharpoonup> roster"
  currentTurn :: int
  timerEndTime :: "int option"
  TIMER_DURATION :: int

text \<open>An entry \<open>{ playerId, roomId, name }\<close> of the global map \<open>players\<close>.\<close>

record participant =
  playerId :: int
  roomId :: string
  name :: jsval

text \<open>
  The server: the global map \<open>games\<close>, the global map \<open>players\<close> (here
  \<open>socket_players\<close>, the name \<open>players\<close> being the field of the game state), and the
  running \<open>setInterval\<close> timers. The callbacks of two timers started for the same room
  are the same function of the server state, so a timer is recorded as the room code
  its closure holds, once per running timer.
\<close>

record server =
  games :: "string \<rightharpoonup> game_state"
  socket_players :: "socket_id \<rightharpoonup> participant"
  intervals :: "string list"

definition init_server :: server where
  "init_server = \<lparr>games = Map.empty, socket_players = Map.empty, intervals = []\<rparr>"

text \<open>
  The messages of \<open>socket.emit\<close> (to one socket) and \<open>io.to(roomCode).emit\<close> (to a
  room), with the payload as it is when the message is emitted.
\<close>

datatype message =
    gameCreated string int game_state
  | gameJoined int game_state
  | playerJoined int game_state
  | gameStarted game_state "int option"
  | playerSelected int string jsval "int \<rightharpoonup> roster"
  | turnSkipped game_state
  | playerDisconnected int game_state
  | turnChanged int "int option"
  | timerUpdate int int
  | error string

datatype emit =
    SocketEmit socket_id message
  | RoomEmit string message

text \<open>An uncaught exception of a handler.\<close>

datatype js_error = TypeError

text \<open>
  \<open>games.get(roomCode)\<close> for the \<open>roomCode\<close> of an event: the keys of \<open>games\<close> are
  strings, and a \<open>Map\<close> finds a key only by an equal value of the same type.
\<close>

definition games_get :: "server \<Rightarrow> jsval \<Rightarrow> (string \<times> game_state) option" where
  "games_get s v =
     (case v of
        JStr c \<Rightarrow> (case games s c of None \<Rightarrow> None | Some g \<Rightarrow> Some (c, g))
      | _ \<Rightarrow> None)"

subsection \<open>The handlers\<close>

text \<open>
  \<open>createGame\<close>; \<open>code\<close> is what \<open>generateRoomCode()\<close> returned, \<open>playerName\<close> the
  field of the event's data.
\<close>

definition createGame :: "server \<Rightarrow> socket_id \<Rightarrow> string \<Rightarrow> jsval \<Rightarrow> server \<times> emit list" where
  "createGame s sock code playerName =
     (let gameState =
        \<lparr>roomCode = code,
         players = [1 \<mapsto> Some \<lparr>occ_id = sock,
                               occ_name = js_or playerName (JStr ''Player 1''),
                               ready = False\<rparr>,
                    2 \<mapsto> None, 3 \<mapsto> None],
         rosters = [1 \<mapsto> Map.empty, 2 \<mapsto> Map.empty, 3 \<mapsto> Map.empty],
         currentTurn = 1,
         timerEndTime = None,
         TIMER_DURATION = 15\<rparr>
      in (s\<lparr>games := (games s)(code \<mapsto> gameState),
            socket_players := (socket_players s)
              (sock \<mapsto> \<lparr>playerId = 1, roomId = code, name = playerName\<rparr>)\<rparr>,
          [SocketEmit sock (gameCreated code 1 gameState)]))"

text \<open>The loop \<open>for (let i = 2; i <= 3; i++)\<close> of \<open>joinGame\<close>, from \<open>i\<close> on.\<close>

function find_empty_slot :: "game_state \<Rightarrow> int \<Rightarrow> int option" where
  "find_empty_slot g i =
     (if i \<le> 3
      then (if players g i = Some None then Some i else find_empty_slot g (i + 1))
      else None)"
  by pat_completeness auto
termination
  by (relation "measure (\<lambda>(g, i). nat (4 - i))") auto

declare find_empty_slot.simps [simp del]

definition joinGame :: "server \<Rightarrow> socket_id \<Rightarrow> jsval \<Rightarrow> jsval \<Rightarrow> server \<times> emit list" where
  "joinGame s sock roomCode_v playerName =
     (case games_get s roomCode_v of
        None \<Rightarrow> (s, [SocketEmit sock (error ''Room not found'')])
      | Some (c, gameState) \<Rightarrow>
          (case find_empty_slot gameState 2 of
             None \<Rightarrow> (s, [SocketEmit sock (error ''Room is full'')])
           | Some pid \<Rightarrow>
               (let gameState' = gameState\<lparr>players := (players gameState)
                      (pid \<mapsto> Some \<lparr>occ_id = sock,
                                     occ_name = js_or playerName
                                       (JStr (''Player '' @ string_of_int pid)),
                                     ready = False\<rparr>)\<rparr>
                in (s\<lparr>games := (games s)(c \<mapsto> gameState'),
                      socket_players := (socket_players s)
                        (sock \<mapsto> \<lparr>playerId = pid, roomId = c, name = playerName\<rparr>)\<rparr>,
                    [SocketEmit sock (gameJoined pid gameState'),
                     RoomEmit c (playerJoined pid gameState')]))))"

text \<open>\<open>startTimerBroadcast\<close>: one more running timer for the room.\<close>

definition startTimerBroadcast :: "server \<Rightarrow> string \<Rightarrow> server" where
  "startTimerBroadcast s c = s\<lparr>intervals := intervals s @ [c]\<rparr>"

text \<open>\<open>startGame\<close>; \<open>now\<close> is the value of \<open>Date.now()\<close>.\<close>

definition startGame :: "server \<Rightarrow> jsval \<Rightarrow> int \<Rightarrow> server \<times> emit list" where
  "startGame s roomCode_v now =
     (case games_get s roomCode_v of
        None \<Rightarrow> (s, [])
      | Some (c, gameState) \<Rightarrow>
          (let gameState' = gameState\<lparr>timerEndTime := Some (now + TIMER_DURATION gameState * 1000),
                                       currentTurn := 1\<rparr>
           in (startTimerBroadcast (s\<lparr>games := (games s)(c \<mapsto> gameState')\<rparr>) c,
               [RoomEmit c (gameStarted gameState' (timerEndTime gameState'))])))"

text \<open>
  \<open>advanceTurn\<close>: what it does to the game state object, and the function itself on
  the room code.
\<close>

definition advance_game :: "game_state \<Rightarrow> int \<Rightarrow> game_state" where
  "advance_game gameState now =
     gameState\<lparr>currentTurn := (if currentTurn gameState = 3 then 1 else currentTurn gameState + 1),
               timerEndTime := Some (now + TIMER_DURATION gameState * 1000)\<rparr>"

definition advanceTurn :: "server \<Rightarrow> string \<Rightarrow> int \<Rightarrow> server \<times> emit list" where
  "advanceTurn s c now =
     (case games s c of
        None \<Rightarrow> (s, [])
      | Some gameState \<Rightarrow>
          (let gameState' = advance_game gameState now
           in (s\<lparr>games := (games s)(c \<mapsto> gameState')\<rparr>,
               [RoomEmit c (turnChanged (currentTurn gameState') (timerEndTime gameState'))])))"

text \<open>
  \<open>selectPlayer\<close>. Reading \<open>rosters[playerId]\<close> at a key the object does not have
  gives \<open>undefined\<close>, and the property access on it throws.
\<close>

definition selectPlayer ::
  "server \<Rightarrow> socket_id \<Rightarrow> jsval \<Rightarrow> string \<Rightarrow> jsval \<Rightarrow> int \<Rightarrow> js_error + server \<times> emit list" where
  "selectPlayer s sock roomCode_v positionId playerData now =
     (case games_get s roomCode_v of
        None \<Rightarrow> Inr (s, [])
      | Some (c, gameState) \<Rightarrow>
          (case socket_players s sock of
             None \<Rightarrow> Inr (s, [])
           | Some player \<Rightarrow>
               (if currentTurn gameState \<noteq> playerId player
                then Inr (s, [SocketEmit sock (error ''Not your turn'')])
                else (case rosters gameState (playerId player) of
                        None \<Rightarrow> Inl TypeError
                      | Some r \<Rightarrow>
                          (if slot_truthy r positionId
                           then Inr (s, [SocketEmit sock (error ''Position already filled'')])
                           else (let gameState' = gameState\<lparr>rosters := (rosters gameState)
                                       (playerId player \<mapsto> r(positionId \<mapsto> playerData))\<rparr>;
                                     s' = s\<lparr>games := (games s)(c \<mapsto> gameState')\<rparr>;
                                     (s'', out) = advanceTurn s' c now
                                 in Inr (s'', RoomEmit c (playerSelected (playerId player) positionId
                                                playerData (rosters gameState')) # out)))))))"

text \<open>
  \<open>skipTurn\<close>. The \<open>gameState\<close> of the \<open>turnSkipped\<close> message is the object
  \<open>advanceTurn\<close> has just updated.
\<close>

definition skipTurn :: "server \<Rightarrow> socket_id \<Rightarrow> jsval \<Rightarrow> int \<Rightarrow> server \<times> emit list" where
  "skipTurn s sock roomCode_v now =
     (case games_get s roomCode_v of
        None \<Rightarrow> (s, [])
      | Some (c, gameState) \<Rightarrow>
          (case socket_players s sock of
             None \<Rightarrow> (s, [])
           | Some player \<Rightarrow>
               (if currentTurn gameState = playerId player
                then (let (s', out) = advanceTurn s c now
                      in (s', out @ [RoomEmit c (turnSkipped (advance_game gameState now))]))
                else (s, []))))"

text \<open>\<open>disconnect\<close>.\<close>

definition disconnect :: "server \<Rightarrow> socket_id \<Rightarrow> server \<times> emit list" where
  "disconnect s sock =
     (case socket_players s sock of
        None \<Rightarrow> (s, [])
      | Some player \<Rightarrow>
          (let (s', out) =
             (case games s (roomId player) of
                None \<Rightarrow> (s, [])
              | Some gameState \<Rightarrow>
                  (let gameState' = gameState\<lparr>players := (players gameState)
                                                (playerId player \<mapsto> None)\<rparr>
                   in (s\<lparr>games := (games s)(roomId player \<mapsto> gameState')\<rparr>,
                       [RoomEmit (roomId player)
                          (playerDisconnected (playerId player) gameState')])))
           in (s'\<lparr>socket_players := (socket_players s')(sock := None)\<rparr>, out)))"

text \<open>
  The callback of a timer of \<open>startTimerBroadcast(c)\<close>; \<open>now\<close> is the \<open>Date.now()\<close> it
  reads, \<open>now'\<close> the one \<open>advanceTurn\<close> reads after it. \<open>clearInterval\<close> ends this
  timer.
\<close>

definition clearInterval :: "server \<Rightarrow> string \<Rightarrow> server" where
  "clearInterval s c = s\<lparr>intervals := remove1 c (intervals s)\<rparr>"

definition timer_callback :: "server \<Rightarrow> string \<Rightarrow> int \<Rightarrow> int \<Rightarrow> server \<times> emit list" where
  "timer_callback s c now now' =
     (case games s c of
        None \<Rightarrow> (clearInterval s c, [])
      | Some gameState \<Rightarrow>
          (case timerEndTime gameState of
             None \<Rightarrow> (clearInterval s c, [])
           | Some t \<Rightarrow>
               (if t = 0 then (clearInterval s c, [])
                else (let timeRemaining = max 0 (t - now);
                          upd = RoomEmit c (timerUpdate timeRemaining (currentTurn gameState))
                      in if timeRemaining \<le> 0
                         then (let (s', out) = advanceTurn s c now' in (s', upd # out))
                         else (s, [upd])))))"

subsection \<open>Events and runs\<close>

text \<open>
  An event a socket sends, with the fields of its data object, a missing field being
  \<open>JUndefined\<close>; \<open>createGameEv\<close> also carries the code the generator returns for
  it. An event always comes with a data object here: without one the handlers other
  than \<open>disconnect\<close> throw on reading its fields, before they change anything.
\<close>

datatype event =
    createGameEv string jsval
  | joinGameEv jsval jsval
  | startGameEv jsval
  | selectPlayerEv jsval string jsval
  | skipTurnEv jsval
  | disconnectEv

fun handle :: "server \<Rightarrow> socket_id \<Rightarrow> int \<Rightarrow> event \<Rightarrow> js_error + server \<times> emit list" where
  "handle s sock now (createGameEv code playerName) = Inr (createGame s sock code playerName)"
| "handle s sock now (joinGameEv rc playerName) = Inr (joinGame s sock rc playerName)"
| "handle s sock now (startGameEv rc) = Inr (startGame s rc now)"
| "handle s sock now (selectPlayerEv rc positionId playerData) =
     selectPlayer s sock rc positionId playerData now"
| "handle s sock now (skipTurnEv rc) = Inr (skipTurn s sock rc now)"
| "handle s sock now disconnectEv = Inr (disconnect s sock)"

text \<open>
  The states the server can be in: it starts with both maps empty and no timer, handles
  events of any socket at any time, and runs the callback of any running timer.
\<close>

inductive reachable :: "server \<Rightarrow> bool" where
  r_init: "reachable init_server"
| r_event: "reachable s \<Longrightarrow> handle s sock now ev = Inr (s', out) \<Longrightarrow> reachable s'"
| r_timer: "reachable s \<Longrightarrow> c \<in> set (intervals s) \<Longrightarrow>
            timer_callback s c now now' = (s', out) \<Longrightarrow> reachable s'"

text \<open>\<open>n\<close> calls of \<open>advanceTurn\<close> in a row, at the times of the list.\<close>

fun advances :: "server \<Rightarrow> string \<Rightarrow> int list \<Rightarrow> server" where
  "advances s c [] = s"
| "advances s c (now # nows) = advances (fst (advanceTurn s c now)) c nows"

section \<open>Invariants of the reachable states\<close>

text \<open>
  In every state the server can reach, a room has its turn in 1..3, a roster for each of
  the three seats and the duration 15, and a participant record names a seat in 1..3 of
  a room that exists (rooms are never removed).
\<close>

definition room_ok :: "game_state \<Rightarrow> bool" where
  "room_ok g \<longleftrightarrow>
     1 \<le> currentTurn g \<and> currentTurn g \<le> 3 \<and>
     rosters g 1 \<noteq> None \<and> rosters g 2 \<noteq> None \<and> rosters g 3 \<noteq> None \<and>
     TIMER_DURATION g = 15"

definition server_ok :: "server \<Rightarrow> bool" where
  "server_ok s \<longleftrightarrow>
     (\<forall>c g. games s c = Some g \<longrightarrow> room_ok g) \<and>
     (\<forall>sock p. socket_players s sock = Some p \<longrightarrow>
        1 \<le> playerId p \<and> playerId p \<le> 3 \<and> games s (roomId p) \<noteq> None)"

section \<open>Vocabulary of the properties\<close>

text \<open>The cycle of the seats, 1 to 2, 2 to 3, 3 to 1.\<close>

definition turn_cycle :: "(int \<times> int) set" where
  "turn_cycle = {(1, 2), (2, 3), (3, 1)}"

text \<open>What a room of the registry holds: its turn, a seat, a roster entry, its deadline.\<close>

definition room_turn :: "server \<Rightarrow> string \<Rightarrow> int option" where
  "room_turn s c = map_option currentTurn (games s c)"

definition room_seat :: "server \<Rightarrow> string \<Rightarrow> int \<Rightarrow> occupant option option" where
  "room_seat s c i = (case games s c of None \<Rightarrow> None | Some g \<Rightarrow> players g i)"

definition room_slot :: "server \<Rightarrow> string \<Rightarrow> int \<Rightarrow> string \<Rightarrow> jsval option" where
  "room_slot s c i k =
     (case games s c of
        None \<Rightarrow> None
      | Some g \<Rightarrow> (case rosters g i of None \<Rightarrow> None | Some r \<Rightarrow> r k))"

definition room_deadline :: "server \<Rightarrow> string \<Rightarrow> int option" where
  "room_deadline s c = (case games s c of None \<Rightarrow> None | Some g \<Rightarrow> timerEndTime g)"

definition seat_of :: "server \<Rightarrow> socket_id \<Rightarrow> (string \<times> int) option" where
  "seat_of s sock = map_option (\<lambda>p. (roomId p, playerId p)) (socket_players s sock)"

definition st1 :: server where
  "st1 = fst (createGame init_server ''s1'' ''ABC123'' (JStr ''Ann''))"

definition st2 :: server where
  "st2 = fst (joinGame st1 ''s2'' (JStr ''ABC123'') (JStr ''Bob''))"

definition st3 :: server where
  "st3 = fst (joinGame st2 ''s3'' (JStr ''ABC123'') JUndefined)"

fun is_error :: "emit \<Rightarrow> bool" where
  "is_error (SocketEmit sock (error m)) = True"
| "is_error (RoomEmit c (error m)) = True"
| "is_error e = False"

definition domain_errors :: "string list" where
  "domain_errors = [''Room not found'', ''Room is full'', ''Not your turn'', ''Position already filled'']"

section \<open>Proofs\<close>

subsection \<open>The invariants hold\<close>

lemma find_empty_slot_2:
  "find_empty_slot g 2 =
     (if players g 2 = Some None then Some 2
      else if players g 3 = Some None then Some 3 else None)"
  by (simp add: find_empty_slot.simps [of g 2] find_empty_slot.simps [of g 3]
        find_empty_slot.simps [of g 4])

lemma server_ok_room: "server_ok s \<Longrightarrow> games s c = Some g \<Longrightarrow> room_ok g"
  by (simp add: server_ok_def)

lemma server_ok_player:
  "server_ok s \<Longrightarrow> socket_players s sock = Some p \<Longrightarrow>
   1 \<le> playerId p \<and> playerId p \<le> 3 \<and> games s (roomId p) \<noteq> None"
  by (simp add: server_ok_def)

lemma server_ok_games_upd:
  assumes "server_ok s" "room_ok g"
  shows "server_ok (s\<lparr>games := (games s)(c \<mapsto> g)\<rparr>)"
  using assms unfolding server_ok_def by simp

lemma server_ok_bind:
  assumes "server_ok s" "1 \<le> playerId p" "playerId p \<le> 3" "games s (roomId p) \<noteq> None"
  shows "server_ok (s\<lparr>socket_players := (socket_players s)(sock \<mapsto> p)\<rparr>)"
  using assms unfolding server_ok_def by simp

lemma server_ok_unbind:
  assumes "server_ok s"
  shows "server_ok (s\<lparr>socket_players := (socket_players s)(sock := None)\<rparr>)"
  using assms unfolding server_ok_def by simp

lemma server_ok_intervals [simp]: "server_ok (s\<lparr>intervals := xs\<rparr>) = server_ok s"
  by (simp add: server_ok_def)

lemma room_ok_advance: "room_ok g \<Longrightarrow> room_ok (advance_game g now)"
  by (simp add: room_ok_def advance_game_def)

lemma server_ok_advanceTurn:
  assumes "server_ok s"
  shows "server_ok (fst (advanceTurn s c now))"
proof (cases "games s c")
  case None
  then show ?thesis using assms by (simp add: advanceTurn_def)
next
  case (Some g)
  then have "room_ok (advance_game g now)"
    using assms by (blast intro: room_ok_advance server_ok_room)
  then show ?thesis
    using assms Some by (simp add: advanceTurn_def Let_def server_ok_games_upd)
qed

lemma server_ok_createGame:
  assumes "server_ok s"
  shows "server_ok (fst (createGame s sock code pn))"
proof -
  let ?g = "\<lparr>roomCode = code,
         players = [1 \<mapsto> Some \<lparr>occ_id = sock, occ_name = js_or pn (JStr ''Player 1''), ready = False\<rparr>,
                    2 \<mapsto> None, 3 \<mapsto> None],
         rosters = [1 \<mapsto> Map.empty, 2 \<mapsto> Map.empty, 3 \<mapsto> Map.empty],
         currentTurn = 1, timerEndTime = None, TIMER_DURATION = 15\<rparr>"
  have "room_ok ?g" by (simp add: room_ok_def)
  then have "server_ok (s\<lparr>games := (games s)(code \<mapsto> ?g)\<rparr>)"
    using assms by (rule server_ok_games_upd [rotated])
  then have "server_ok (s\<lparr>games := (games s)(code \<mapsto> ?g)\<rparr>
      \<lparr>socket_players := (socket_players (s\<lparr>games := (games s)(code \<mapsto> ?g)\<rparr>))
          (sock \<mapsto> \<lparr>playerId = 1, roomId = code, name = pn\<rparr>)\<rparr>)"
    by (rule server_ok_bind) simp_all
  then show ?thesis by (simp add: createGame_def Let_def)
qed

lemma server_ok_joinGame:
  assumes "server_ok s"
  shows "server_ok (fst (joinGame s sock rc pn))"
proof (cases "games_get s rc")
  case None
  then show ?thesis using assms by (simp add: joinGame_def)
next
  case (Some cg)
  obtain c g where cg: "cg = (c, g)" by (cases cg)
  have g: "games s c = Some g"
    using Some cg by (auto simp: games_get_def split: jsval.splits option.splits)
  show ?thesis
  proof (cases "find_empty_slot g 2")
    case None
    then show ?thesis using assms Some cg by (simp add: joinGame_def)
  next
    case (Some pid)
    then have pid: "2 \<le> pid" "pid \<le> 3"
      by (auto simp: find_empty_slot_2 split: if_splits)
    let ?g = "g\<lparr>players := (players g)(pid \<mapsto> Some \<lparr>occ_id = sock,
                 occ_name = js_or pn (JStr (''Player '' @ string_of_int pid)), ready = False\<rparr>)\<rparr>"
    have "room_ok g" using assms g by (rule server_ok_room)
    then have "room_ok ?g" by (simp add: room_ok_def)
    then have "server_ok (s\<lparr>games := (games s)(c \<mapsto> ?g)\<rparr>)"
      using assms by (rule server_ok_games_upd [rotated])
    then have "server_ok (s\<lparr>games := (games s)(c \<mapsto> ?g)\<rparr>
        \<lparr>socket_players := (socket_players (s\<lparr>games := (games s)(c \<mapsto> ?g)\<rparr>))
            (sock \<mapsto> \<lparr>playerId = pid, roomId = c, name = pn\<rparr>)\<rparr>)"
      using pid by (intro server_ok_bind) simp_all
    then show ?thesis
      using Some \<open>games_get s rc = Some cg\<close> cg by (simp add: joinGame_def Let_def)
  qed
qed

lemma server_ok_startGame:
  assumes "server_ok s"
  shows "server_ok (fst (startGame s rc now))"
proof (cases "games_get s rc")
  case None
  then show ?thesis using assms by (simp add: startGame_def)
next
  case (Some cg)
  obtain c g where cg: "cg = (c, g)" by (cases cg)
  have g: "games s c = Some g"
    using Some cg by (auto simp: games_get_def split: jsval.splits option.splits)
  let ?g = "g\<lparr>timerEndTime := Some (now + TIMER_DURATION g * 1000), currentTurn := 1\<rparr>"
  have "room_ok g" using assms g by (rule server_ok_room)
  then have "room_ok ?g" by (simp add: room_ok_def)
  then have "server_ok (s\<lparr>games := (games s)(c \<mapsto> ?g)\<rparr>)"
    using assms by (rule server_ok_games_upd [rotated])
  then show ?thesis
    using Some cg by (simp add: startGame_def startTimerBroadcast_def Let_def)
qed

lemma server_ok_selectPlayer:
  assumes "server_ok s" "selectPlayer s sock rc pos pd now = Inr (s', out)"
  shows "server_ok s'"
proof (cases "games_get s rc")
  case None
  then show ?thesis using assms by (simp add: selectPlayer_def)
next
  case (Some cg)
  obtain c g where cg: "cg = (c, g)" by (cases cg)
  have g: "games s c = Some g"
    using Some cg by (auto simp: games_get_def split: jsval.splits option.splits)
  have rg: "room_ok g" using assms(1) g by (rule server_ok_room)
  show ?thesis
  proof (cases "socket_players s sock")
    case None
    then show ?thesis using assms Some cg by (simp add: selectPlayer_def)
  next
    case (Some p)
    note sel = assms(2) [unfolded selectPlayer_def, simplified \<open>games_get s rc = Some cg\<close> cg Some, simplified]
    show ?thesis
    proof (cases "currentTurn g = playerId p")
      case False
      then show ?thesis using sel assms(1) by simp
    next
      case True
      show ?thesis
      proof (cases "rosters g (playerId p)")
        case None
        then show ?thesis using sel True by simp
      next
        case (Some r)
        show ?thesis
        proof (cases "slot_truthy r pos")
          case True
          then show ?thesis using sel \<open>currentTurn g = playerId p\<close> Some assms(1) by simp
        next
          case False
          let ?g = "g\<lparr>rosters := (rosters g)(playerId p \<mapsto> r(pos \<mapsto> pd))\<rparr>"
          let ?s = "s\<lparr>games := (games s)(c \<mapsto> ?g)\<rparr>"
          have "room_ok ?g" using rg by (simp add: room_ok_def)
          then have "server_ok ?s"
            using assms(1) by (rule server_ok_games_upd [rotated])
          then have "server_ok (fst (advanceTurn ?s c now))"
            by (rule server_ok_advanceTurn)
          moreover have "s' = fst (advanceTurn ?s c now)"
            using sel \<open>currentTurn g = playerId p\<close> Some False
            by (simp add: Let_def split: prod.splits)
          ultimately show ?thesis by simp
        qed
      qed
    qed
  qed
qed

lemma server_ok_skipTurn:
  assumes "server_ok s"
  shows "server_ok (fst (skipTurn s sock rc now))"
  using assms server_ok_advanceTurn [OF assms]
  by (simp add: skipTurn_def Let_def case_prod_beta split: option.splits)

lemma server_ok_disconnect:
  assumes "server_ok s"
  shows "server_ok (fst (disconnect s sock))"
proof (cases "socket_players s sock")
  case None
  then show ?thesis using assms by (simp add: disconnect_def)
next
  case (Some p)
  show ?thesis
  proof (cases "games s (roomId p)")
    case None
    then show ?thesis
      using assms Some by (simp add: disconnect_def server_ok_unbind)
  next
    case (Some g)
    let ?g = "g\<lparr>players := (players g)(playerId p \<mapsto> None)\<rparr>"
    have "room_ok g" using assms Some by (rule server_ok_room)
    then have "room_ok ?g" by (simp add: room_ok_def)
    then have "server_ok (s\<lparr>games := (games s)(roomId p \<mapsto> ?g)\<rparr>)"
      using assms by (rule server_ok_games_upd [rotated])
    then have "server_ok (s\<lparr>games := (games s)(roomId p \<mapsto> ?g)\<rparr>
       \<lparr>socket_players := (socket_players (s\<lparr>games := (games s)(roomId p \<mapsto> ?g)\<rparr>))(sock := None)\<rparr>)"
      by (rule server_ok_unbind)
    then show ?thesis
      using Some \<open>socket_players s sock = Some p\<close> by (simp add: disconnect_def Let_def)
  qed
qed

lemma server_ok_timer:
  assumes "server_ok s"
  shows "server_ok (fst (timer_callback s c now now'))"
  using assms server_ok_advanceTurn [OF assms]
  by (simp add: timer_callback_def clearInterval_def Let_def case_prod_beta split: option.splits)

lemma server_ok_handle:
  assumes "server_ok s" "handle s sock now ev = Inr (s', out)"
  shows "server_ok s'"
proof (cases ev)
  case (createGameEv code pn)
  then show ?thesis using assms server_ok_createGame [OF assms(1), of sock code pn] by auto
next
  case (joinGameEv rc pn)
  then show ?thesis using assms server_ok_joinGame [OF assms(1), of sock rc pn] by auto
next
  case (startGameEv rc)
  then show ?thesis using assms server_ok_startGame [OF assms(1), of rc now] by auto
next
  case (selectPlayerEv rc pos pd)
  then show ?thesis using assms by (auto intro: server_ok_selectPlayer)
next
  case (skipTurnEv rc)
  then show ?thesis using assms server_ok_skipTurn [OF assms(1), of sock rc now] by auto
next
  case disconnectEv
  then show ?thesis using assms server_ok_disconnect [OF assms(1), of sock] by auto
qed

lemma reachable_server_ok: "reachable s \<Longrightarrow> server_ok s"
proof (induction rule: reachable.induct)
  case r_init
  show ?case by (simp add: server_ok_def init_server_def)
next
  case (r_event s sock now ev s' out)
  then show ?case by (blast intro: server_ok_handle)
next
  case (r_timer s c now now' s' out)
  then show ?case using server_ok_timer [of s c now now'] by simp
qed

subsection \<open>Lookups and the sample states\<close>

lemma games_get_JStr [simp]: "games s c = Some g \<Longrightarrow> games_get s (JStr c) = Some (c, g)"
  by (simp add: games_get_def)

lemma st1_game:
  "games st1 ''ABC123'' = Some
     \<lparr>roomCode = ''ABC123'',
      players = [1 \<mapsto> Some \<lparr>occ_id = ''s1'', occ_name = JStr ''Ann'', ready = False\<rparr>,
                 2 \<mapsto> None, 3 \<mapsto> None],
      rosters = [1 \<mapsto> Map.empty, 2 \<mapsto> Map.empty, 3 \<mapsto> Map.empty],
      currentTurn = 1, timerEndTime = None, TIMER_DURATION = 15\<rparr>"
  by (simp add: st1_def init_server_def createGame_def Let_def js_or_def)

lemma st1_player:
  "socket_players st1 ''s1'' = Some \<lparr>playerId = 1, roomId = ''ABC123'', name = JStr ''Ann''\<rparr>"
  by (simp add: st1_def init_server_def createGame_def Let_def)

lemma st2_game:
  "games st2 ''ABC123'' = Some
     \<lparr>roomCode = ''ABC123'',
      players = [1 \<mapsto> Some \<lparr>occ_id = ''s1'', occ_name = JStr ''Ann'', ready = False\<rparr>,
                 2 \<mapsto> Some \<lparr>occ_id = ''s2'', occ_name = JStr ''Bob'', ready = False\<rparr>,
                 3 \<mapsto> None],
      rosters = [1 \<mapsto> Map.empty, 2 \<mapsto> Map.empty, 3 \<mapsto> Map.empty],
      currentTurn = 1, timerEndTime = None, TIMER_DURATION = 15\<rparr>"
  by (simp add: st2_def joinGame_def st1_game find_empty_slot_2 Let_def js_or_def fun_upd_twist)

lemma st2_player:
  "socket_players st2 ''s2'' = Some \<lparr>playerId = 2, roomId = ''ABC123'', name = JStr ''Bob''\<rparr>"
  by (simp add: st2_def joinGame_def st1_game find_empty_slot_2 Let_def)

lemma reachable_st1: "reachable st1"
proof -
  have "handle init_server ''s1'' 0 (createGameEv ''ABC123'' (JStr ''Ann''))
          = Inr (st1, snd (createGame init_server ''s1'' ''ABC123'' (JStr ''Ann'')))"
    by (simp add: st1_def)
  with r_init show ?thesis by (rule r_event)
qed

lemma reachable_st2: "reachable st2"
proof -
  have "handle st1 ''s2'' 0 (joinGameEv (JStr ''ABC123'') (JStr ''Bob''))
          = Inr (st2, snd (joinGame st1 ''s2'' (JStr ''ABC123'') (JStr ''Bob'')))"
    by (simp add: st2_def)
  with reachable_st1 show ?thesis by (rule r_event)
qed

lemma st3_game:
  "games st3 ''ABC123'' = Some
     \<lparr>roomCode = ''ABC123'',
      players = [1 \<mapsto> Some \<lparr>occ_id = ''s1'', occ_name = JStr ''Ann'', ready = False\<rparr>,
                 2 \<mapsto> Some \<lparr>occ_id = ''s2'', occ_name = JStr ''Bob'', ready = False\<rparr>,
                 3 \<mapsto> Some \<lparr>occ_id = ''s3'', occ_name = JStr ''Player 3'', ready = False\<rparr>],
      rosters = [1 \<mapsto> Map.empty, 2 \<mapsto> Map.empty, 3 \<mapsto> Map.empty],
      currentTurn = 1, timerEndTime = None, TIMER_DURATION = 15\<rparr>"
  by (simp add: st3_def joinGame_def st2_game find_empty_slot_2 Let_def js_or_def
      string_of_int_def string_of_nat.simps decimal_digit_def)

section \<open>The claims\<close>

subsection \<open>C1: the turn stays in 1..3 and advances along the cycle\<close>

lemma games_advanceTurn:
  "games (fst (advanceTurn s c now)) =
     (case games s c of None \<Rightarrow> games s | Some g \<Rightarrow> (games s)(c \<mapsto> advance_game g now))"
  by (simp add: advanceTurn_def Let_def split: option.splits)

lemma advance_game_cycle:
  assumes "room_ok g"
  shows "(currentTurn g, currentTurn (advance_game g now)) \<in> turn_cycle"
  using assms by (auto simp: room_ok_def advance_game_def turn_cycle_def)

lemma advance_game_mod:
  assumes "1 \<le> currentTurn g" "currentTurn g \<le> 3"
  shows "currentTurn (advance_game g now) = currentTurn g mod 3 + 1"
proof -
  have "currentTurn g = 1 \<or> currentTurn g = 2 \<or> currentTurn g = 3"
    using assms by arith
  then show ?thesis by (auto simp: advance_game_def)
qed

lemma advances_turn:
  assumes "games s c = Some g" "room_ok g"
  shows "\<exists>g'. games (advances s c nows) c = Some g' \<and> room_ok g' \<and>
           currentTurn g' = (currentTurn g - 1 + int (length nows)) mod 3 + 1"
  using assms
proof (induction nows arbitrary: s g)
  case Nil
  then have "currentTurn g = 1 \<or> currentTurn g = 2 \<or> currentTurn g = 3"
    by (auto simp: room_ok_def)
  then show ?case using Nil by auto
next
  case (Cons now nows)
  let ?s = "fst (advanceTurn s c now)"
  let ?g = "advance_game g now"
  have g1: "games ?s c = Some ?g"
    using Cons.prems by (simp add: games_advanceTurn)
  have ok: "room_ok ?g" using Cons.prems by (simp add: room_ok_advance)
  from Cons.IH [OF g1 ok] obtain g' where
    g': "games (advances ?s c nows) c = Some g'" "room_ok g'"
      "currentTurn g' = (currentTurn ?g - 1 + int (length nows)) mod 3 + 1"
    by blast
  have "currentTurn ?g = currentTurn g mod 3 + 1"
    using Cons.prems by (intro advance_game_mod) (simp_all add: room_ok_def)
  then have "(currentTurn ?g - 1 + int (length nows)) mod 3
      = (currentTurn g - 1 + int (length (now # nows))) mod 3"
    by (simp add: mod_simps algebra_simps)
  then show ?case using g' by auto
qed

lemma selectPlayer_turn:
  assumes "games s c = Some g" "selectPlayer s sock rc pos pd now = Inr (s', out)"
  shows "\<exists>g'. games s' c = Some g' \<and>
           (currentTurn g' = currentTurn g \<or>
            currentTurn g' = currentTurn (advance_game g now))"
  using assms
  by (auto simp: selectPlayer_def games_get_def advanceTurn_def advance_game_def Let_def
      split: option.splits jsval.splits if_splits)

lemma skipTurn_turn:
  assumes "games s c = Some g" "skipTurn s sock rc now = (s', out)"
  shows "games s' c = Some g \<or> games s' c = Some (advance_game g now)"
  using assms
  by (auto simp: skipTurn_def games_get_def advanceTurn_def Let_def
      split: option.splits jsval.splits if_splits)

lemma timer_callback_turn:
  assumes "games s c = Some g" "timer_callback s c' now now' = (s', out)"
  shows "games s' c = Some g \<or> games s' c = Some (advance_game g now')"
  using assms
  by (auto simp: timer_callback_def clearInterval_def advanceTurn_def Let_def
      split: option.splits if_splits)

text \<open>
  C1. In every reachable state the \<open>currentTurn\<close> of a room is 1, 2 or 3. A call of
  \<open>advanceTurn\<close> on the room moves it along the cycle 1 to 2, 2 to 3, 3 to 1; \<open>n\<close> calls
  in a row move it \<open>n\<close> steps along the cycle, so the seats come in the order
  1, 2, 3, 1, 2, 3, ... Whatever \<open>selectPlayer\<close>, \<open>skipTurn\<close> and a timer callback do to
  the turn of a room is nothing or one step of the cycle.
\<close>

theorem currentTurn_cycle:
  assumes "reachable s" and "games s c = Some g"
  shows "currentTurn g \<in> {1, 2, 3} \<and>
    (\<forall>now. \<exists>g'. games (fst (advanceTurn s c now)) c = Some g' \<and>
        (currentTurn g, currentTurn g') \<in> turn_cycle) \<and>
    (\<forall>nows. \<exists>g'. games (advances s c nows) c = Some g' \<and>
        currentTurn g' = (currentTurn g - 1 + int (length nows)) mod 3 + 1) \<and>
    (\<forall>sock rc pos pd now s' out. selectPlayer s sock rc pos pd now = Inr (s', out) \<longrightarrow>
        (\<exists>g'. games s' c = Some g' \<and>
           (currentTurn g' = currentTurn g \<or> (currentTurn g, currentTurn g') \<in> turn_cycle))) \<and>
    (\<forall>sock rc now s' out. skipTurn s sock rc now = (s', out) \<longrightarrow>
        (\<exists>g'. games s' c = Some g' \<and>
           (currentTurn g' = currentTurn g \<or> (currentTurn g, currentTurn g') \<in> turn_cycle))) \<and>
    (\<forall>c' now now' s' out. timer_callback s c' now now' = (s', out) \<longrightarrow>
        (\<exists>g'. games s' c = Some g' \<and>
           (currentTurn g' = currentTurn g \<or> (currentTurn g, currentTurn g') \<in> turn_cycle)))"
proof -
  have ok: "room_ok g"
    using assms by (blast intro: server_ok_room reachable_server_ok)
  have cyc: "(currentTurn g, currentTurn (advance_game g now)) \<in> turn_cycle" for now
    using ok by (rule advance_game_cycle)
  have 1: "currentTurn g \<in> {1, 2, 3}"
    using ok by (auto simp: room_ok_def)
  have 2: "\<exists>g'. games (fst (advanceTurn s c now)) c = Some g' \<and>
        (currentTurn g, currentTurn g') \<in> turn_cycle" for now
    using assms(2) cyc by (simp add: games_advanceTurn)
  have 3: "\<exists>g'. games (advances s c nows) c = Some g' \<and>
        currentTurn g' = (currentTurn g - 1 + int (length nows)) mod 3 + 1" for nows
    using advances_turn [OF assms(2) ok, of nows] by blast
  have 4: "\<exists>g'. games s' c = Some g' \<and>
      (currentTurn g' = currentTurn g \<or> (currentTurn g, currentTurn g') \<in> turn_cycle)"
    if "selectPlayer s sock rc pos pd now = Inr (s', out)" for sock rc pos pd now s' out
    using selectPlayer_turn [OF assms(2) that] cyc [of now] by auto
  have 5: "\<exists>g'. games s' c = Some g' \<and>
      (currentTurn g' = currentTurn g \<or> (currentTurn g, currentTurn g') \<in> turn_cycle)"
    if "skipTurn s sock rc now = (s', out)" for sock rc now s' out
    using skipTurn_turn [OF assms(2) that] cyc by auto
  have 6: "\<exists>g'. games s' c = Some g' \<and>
      (currentTurn g' = currentTurn g \<or> (currentTurn g, currentTurn g') \<in> turn_cycle)"
    if "timer_callback s c' now now' = (s', out)" for c' now now' s' out
    using timer_callback_turn [OF assms(2) that] cyc by auto
  show ?thesis using 1 2 3 4 5 6 by blast
qed

theorem currentTurn_cycle_witness:
  "reachable st1 \<and> room_turn st1 ''ABC123'' = Some 1 \<and>
   room_turn (fst (advanceTurn st1 ''ABC123'' 100)) ''ABC123'' = Some 2 \<and>
   room_turn (advances st1 ''ABC123'' [100, 200]) ''ABC123'' = Some 3 \<and>
   room_turn (advances st1 ''ABC123'' [100, 200, 300]) ''ABC123'' = Some 1 \<and>
   room_turn (advances st1 ''ABC123'' [100, 200, 300, 400]) ''ABC123'' = Some 2"
proof -
  note T = currentTurn_cycle [OF reachable_st1 st1_game]
  note adv = T [THEN conjunct2, THEN conjunct1, rule_format]
  note advs = T [THEN conjunct2, THEN conjunct2, THEN conjunct1, rule_format]
  from adv [of 100] obtain g1 where
    "games (fst (advanceTurn st1 ''ABC123'' 100)) ''ABC123'' = Some g1"
    "(1, currentTurn g1) \<in> turn_cycle"
    by auto
  then have a: "room_turn (fst (advanceTurn st1 ''ABC123'' 100)) ''ABC123'' = Some 2"
    by (auto simp: room_turn_def turn_cycle_def)
  have b: "room_turn (advances st1 ''ABC123'' nows) ''ABC123''
      = Some (int (length nows) mod 3 + 1)" for nows
    using advs [of nows] by (auto simp: room_turn_def)
  show ?thesis
    using reachable_st1 a b [of "[100, 200]"] b [of "[100, 200, 300]"]
      b [of "[100, 200, 300, 400]"]
    by (simp add: room_turn_def st1_game)
qed

subsection \<open>C2: a filled position\<close>

lemma filled_slot_kept:
  assumes "games s c = Some g" "socket_players s sock = Some p"
    and "currentTurn g = playerId p" "rosters g (playerId p) = Some r"
    and "r pos = Some v" "truthy v"
  shows "selectPlayer s sock (JStr c) pos pd now
           = Inr (s, [SocketEmit sock (error ''Position already filled'')])"
  using assms by (simp add: selectPlayer_def slot_truthy_def)

text \<open>
  C2. The code breaks the claim when the stored payload is falsy. In the room
  \<open>ABC123\<close>, started at time 0, seat 1 selects \<open>QB\<close> with the payload \<open>null\<close>: the
  select succeeds, \<open>rosters[1].QB\<close> is \<open>null\<close> and the turn moves on. Two expiries of
  the countdown bring the turn back to seat 1, which selects \<open>QB\<close> again, with the
  payload \<open>{name: "X"}\<close>: no error is emitted and the stored payload is replaced.
\<close>

theorem falsy_payload_overwritten:
  "(case selectPlayer (fst (startGame st1 (JStr ''ABC123'') 0))
           ''s1'' (JStr ''ABC123'') ''QB'' JNull 1000 of
      Inl e \<Rightarrow> False
    | Inr (a, out) \<Rightarrow>
        map is_error out = [False, False] \<and>
        room_slot a ''ABC123'' 1 ''QB'' = Some JNull \<and>
        room_turn a ''ABC123'' = Some 2 \<and>
        room_turn (fst (timer_callback (fst (timer_callback a ''ABC123'' 16000 16000))
                     ''ABC123'' 31000 31000)) ''ABC123'' = Some 1 \<and>
        room_slot (fst (timer_callback (fst (timer_callback a ''ABC123'' 16000 16000))
                     ''ABC123'' 31000 31000)) ''ABC123'' 1 ''QB'' = Some JNull \<and>
        (case selectPlayer
                (fst (timer_callback (fst (timer_callback a ''ABC123'' 16000 16000))
                        ''ABC123'' 31000 31000))
                ''s1'' (JStr ''ABC123'') ''QB'' (JObj [(''name'', JStr ''X'')]) 32000 of
           Inl e \<Rightarrow> False
         | Inr (b, out') \<Rightarrow>
             map is_error out' = [False, False] \<and>
             room_slot b ''ABC123'' 1 ''QB'' = Some (JObj [(''name'', JStr ''X'')])))"
proof -
  let ?c = "''ABC123''"
  let ?s0 = "fst (startGame st1 (JStr ?c) 0)"
  let ?g0 = "\<lparr>roomCode = ''ABC123'',
      players = [1 \<mapsto> Some \<lparr>occ_id = ''s1'', occ_name = JStr ''Ann'', ready = False\<rparr>,
                 2 \<mapsto> None, 3 \<mapsto> None],
      rosters = [1 \<mapsto> Map.empty, 2 \<mapsto> Map.empty, 3 \<mapsto> Map.empty],
      currentTurn = 1, timerEndTime = Some 15000, TIMER_DURATION = 15\<rparr>"
  let ?g1 = "?g0\<lparr>rosters := [1 \<mapsto> [''QB'' \<mapsto> JNull], 2 \<mapsto> Map.empty, 3 \<mapsto> Map.empty],
                  currentTurn := 2, timerEndTime := Some 16000\<rparr>"
  let ?g3 = "?g1\<lparr>currentTurn := 1, timerEndTime := Some 46000\<rparr>"
  let ?g4 = "?g3\<lparr>rosters := [1 \<mapsto> [''QB'' \<mapsto> JObj [(''name'', JStr ''X'')]],
                              2 \<mapsto> Map.empty, 3 \<mapsto> Map.empty],
                  currentTurn := 2, timerEndTime := Some 47000\<rparr>"
  have g0: "games ?s0 ?c = Some ?g0"
    by (simp add: startGame_def startTimerBroadcast_def st1_game Let_def)
  have p0: "socket_players ?s0 ''s1''
      = Some \<lparr>playerId = 1, roomId = ''ABC123'', name = JStr ''Ann''\<rparr>"
    by (simp add: startGame_def startTimerBroadcast_def st1_game st1_player Let_def)
  let ?a = "?s0\<lparr>games := (games ?s0)(?c \<mapsto> ?g1)\<rparr>"
  have sel1: "selectPlayer ?s0 ''s1'' (JStr ?c) ''QB'' JNull 1000
      = Inr (?a, [RoomEmit ?c (playerSelected 1 ''QB'' JNull (rosters ?g1)),
                  RoomEmit ?c (turnChanged 2 (Some 16000))])"
    by (simp add: selectPlayer_def g0 p0 slot_truthy_def Object_prototype_keys_def
        advanceTurn_def advance_game_def Let_def fun_upd_twist)
  let ?a3 = "?a\<lparr>games := (games ?a)(?c \<mapsto> ?g3)\<rparr>"
  have t2: "fst (timer_callback (fst (timer_callback ?a ?c 16000 16000)) ?c 31000 31000) = ?a3"
    by (simp add: timer_callback_def advanceTurn_def advance_game_def Let_def)
  let ?b = "?a3\<lparr>games := (games ?a3)(?c \<mapsto> ?g4)\<rparr>"
  have sel2: "selectPlayer ?a3 ''s1'' (JStr ?c) ''QB'' (JObj [(''name'', JStr ''X'')]) 32000
      = Inr (?b, [RoomEmit ?c (playerSelected 1 ''QB'' (JObj [(''name'', JStr ''X'')]) (rosters ?g4)),
                  RoomEmit ?c (turnChanged 2 (Some 47000))])"
    by (simp add: selectPlayer_def games_get_def p0 slot_truthy_def
        advanceTurn_def advance_game_def Let_def fun_upd_twist)
  show ?thesis
    unfolding sel1 sum.case prod.case t2 sel2
    by (simp add: room_slot_def room_turn_def)
qed

subsection \<open>C3: actions out of turn\<close>

text \<open>
  C3. Amended: when the seat of the sender is not the \<open>currentTurn\<close> of the room, a
  \<open>selectPlayer\<close> is answered by the error \<open>Not your turn\<close> to the sender alone, a
  \<open>skipTurn\<close> is ignored without any message, and both leave the whole server state
  as it was.
\<close>

theorem out_of_turn_rejected:
  assumes "games s c = Some g" and "socket_players s sock = Some p"
    and "playerId p \<noteq> currentTurn g"
  shows "selectPlayer s sock (JStr c) pos pd now
           = Inr (s, [SocketEmit sock (error ''Not your turn'')]) \<and>
         skipTurn s sock (JStr c) now = (s, [])"
  using assms by (auto simp: selectPlayer_def skipTurn_def)

theorem out_of_turn_rejected_witness:
  "selectPlayer st2 ''s2'' (JStr ''ABC123'') ''QB'' (JStr ''X'') 0 =
     Inr (st2, [SocketEmit ''s2'' (error ''Not your turn'')]) \<and>
   skipTurn st2 ''s2'' (JStr ''ABC123'') 0 = (st2, [])"
  using out_of_turn_rejected [OF st2_game st2_player, of "''QB''" "JStr ''X''" 0]
  by simp

text \<open>
  C3 as stated fails for \<open>skipTurn\<close>: seat 2 skips while the turn is at seat 1, and no
  message at all is emitted, so no \<open>Not your turn\<close> error reaches the sender.
\<close>

theorem skip_out_of_turn_counterexample:
  "seat_of st2 ''s2'' = Some (''ABC123'', 2) \<and> room_turn st2 ''ABC123'' = Some 1 \<and>
   snd (skipTurn st2 ''s2'' (JStr ''ABC123'') 0) = []"
  by (simp add: seat_of_def room_turn_def st2_game st2_player skipTurn_def)

subsection \<open>C4: room codes\<close>

text \<open>
  C4. Amended: \<open>createGame\<close> stores the new room under the code the generator returned,
  without looking the code up first: whatever the registry held under that code, it
  then holds the new room there, with the creator on seat 1, seats 2 and 3 \<open>null\<close>,
  empty rosters, the turn at seat 1 and no deadline. Every room under another code stays
  as it is, and when the code is not in the registry the registry grows by this one code
  and keeps every room it had.
\<close>

theorem createGame_registry:
  "games (fst (createGame s sock code pn)) code = Some
     \<lparr>roomCode = code,
      players = [1 \<mapsto> Some \<lparr>occ_id = sock, occ_name = js_or pn (JStr ''Player 1''),
                            ready = False\<rparr>,
                 2 \<mapsto> None, 3 \<mapsto> None],
      rosters = [1 \<mapsto> Map.empty, 2 \<mapsto> Map.empty, 3 \<mapsto> Map.empty],
      currentTurn = 1, timerEndTime = None, TIMER_DURATION = 15\<rparr> \<and>
   games (fst (createGame s sock code pn)) code \<noteq> None \<and>
   (\<forall>c. c \<noteq> code \<longrightarrow> games (fst (createGame s sock code pn)) c = games s c) \<and>
   (games s code = None \<longrightarrow>
      dom (games (fst (createGame s sock code pn))) = insert code (dom (games s)) \<and>
      (\<forall>c g. games s c = Some g \<longrightarrow> games (fst (createGame s sock code pn)) c = Some g)) \<and>
   socket_players (fst (createGame s sock code pn))
     = (socket_players s)(sock \<mapsto> \<lparr>playerId = 1, roomId = code, name = pn\<rparr>) \<and>
   intervals (fst (createGame s sock code pn)) = intervals s"
  by (auto simp: createGame_def Let_def)

theorem createGame_registry_witness:
  "games st2 ''XYZ789'' = None \<and>
   room_seat (fst (createGame st2 ''s9'' ''XYZ789'' (JStr ''Zed''))) ''XYZ789'' 1
     = Some (Some \<lparr>occ_id = ''s9'', occ_name = JStr ''Zed'', ready = False\<rparr>) \<and>
   room_seat (fst (createGame st2 ''s9'' ''XYZ789'' (JStr ''Zed''))) ''XYZ789'' 2 = Some None \<and>
   room_turn (fst (createGame st2 ''s9'' ''XYZ789'' (JStr ''Zed''))) ''XYZ789'' = Some 1 \<and>
   games (fst (createGame st2 ''s9'' ''XYZ789'' (JStr ''Zed''))) ''ABC123'' = games st2 ''ABC123'' \<and>
   dom (games (fst (createGame st2 ''s9'' ''XYZ789'' (JStr ''Zed''))))
     = insert ''XYZ789'' (dom (games st2))"
proof -
  have fresh: "games st2 ''XYZ789'' = None"
    by (simp add: st2_def st1_def init_server_def createGame_def
      joinGame_def games_get_def find_empty_slot_2 Let_def)
  show ?thesis
    using fresh createGame_registry [of st2 "''s9''" "''XYZ789''" "JStr ''Zed''"]
    by (simp add: room_seat_def room_turn_def js_or_def)
qed

text \<open>
  C4 as stated fails: the generator returns a code that is in the registry, and the
  room stored under it, with its two occupants, is replaced by the new room.
\<close>

theorem createGame_collision_counterexample:
  "room_seat st2 ''ABC123'' 1
     = Some (Some \<lparr>occ_id = ''s1'', occ_name = JStr ''Ann'', ready = False\<rparr>) \<and>
   room_seat st2 ''ABC123'' 2
     = Some (Some \<lparr>occ_id = ''s2'', occ_name = JStr ''Bob'', ready = False\<rparr>) \<and>
   room_seat (fst (createGame st2 ''s9'' ''ABC123'' (JStr ''Zed''))) ''ABC123'' 1
     = Some (Some \<lparr>occ_id = ''s9'', occ_name = JStr ''Zed'', ready = False\<rparr>) \<and>
   room_seat (fst (createGame st2 ''s9'' ''ABC123'' (JStr ''Zed''))) ''ABC123'' 2 = Some None"
  by (simp add: room_seat_def st2_game createGame_def Let_def js_or_def)

subsection \<open>C5: joining a room\<close>

text \<open>
  C5. \<open>joinGame\<close> answers \<open>Room not found\<close> when the code is not in the registry and
  \<open>Room is full\<close> when neither seat 2 nor seat 3 is \<open>null\<close>, changing nothing;
  otherwise it seats the sender on seat 2 if that is \<open>null\<close> and on seat 3 if not.
  Two joins to a room whose seats 2 and 3 are \<open>null\<close> get seats 2 and 3, and a third
  is answered by \<open>Room is full\<close>.
\<close>

theorem joinGame_seats:
  "(games_get s rc = None \<longrightarrow>
      joinGame s sock rc pn = (s, [SocketEmit sock (error ''Room not found'')])) \<and>
   (games s c = Some g \<longrightarrow> players g 2 \<noteq> Some None \<longrightarrow> players g 3 \<noteq> Some None \<longrightarrow>
      joinGame s sock (JStr c) pn = (s, [SocketEmit sock (error ''Room is full'')])) \<and>
   (games s c = Some g \<longrightarrow> players g 2 = Some None \<or> players g 3 = Some None \<longrightarrow>
      (\<exists>pid g'. pid = (if players g 2 = Some None then 2 else 3) \<and>
         players g' = (players g)(pid \<mapsto> Some \<lparr>occ_id = sock,
             occ_name = js_or pn (JStr (''Player '' @ string_of_int pid)), ready = False\<rparr>) \<and>
         joinGame s sock (JStr c) pn =
           (s\<lparr>games := (games s)(c \<mapsto> g'),
              socket_players := (socket_players s)
                (sock \<mapsto> \<lparr>playerId = pid, roomId = c, name = pn\<rparr>)\<rparr>,
            [SocketEmit sock (gameJoined pid g'), RoomEmit c (playerJoined pid g')]))) \<and>
   (games s c = Some g \<longrightarrow> players g 2 = Some None \<longrightarrow> players g 3 = Some None \<longrightarrow>
      (\<exists>g1 g2 s1 s2.
         joinGame s a (JStr c) na =
           (s1, [SocketEmit a (gameJoined 2 g1), RoomEmit c (playerJoined 2 g1)]) \<and>
         joinGame s1 b (JStr c) nb =
           (s2, [SocketEmit b (gameJoined 3 g2), RoomEmit c (playerJoined 3 g2)]) \<and>
         joinGame s2 d (JStr c) nd = (s2, [SocketEmit d (error ''Room is full'')])))"
proof -
  have 1: "joinGame s sock rc pn = (s, [SocketEmit sock (error ''Room not found'')])"
    if "games_get s rc = None"
    using that by (simp add: joinGame_def)
  have 2: "joinGame s sock (JStr c) pn = (s, [SocketEmit sock (error ''Room is full'')])"
    if "games s c = Some g" "players g 2 \<noteq> Some None" "players g 3 \<noteq> Some None"
    using that by (simp add: joinGame_def find_empty_slot_2)
  have 3: "\<exists>pid g'. pid = (if players g 2 = Some None then 2 else 3) \<and>
         players g' = (players g)(pid \<mapsto> Some \<lparr>occ_id = sock,
             occ_name = js_or pn (JStr (''Player '' @ string_of_int pid)), ready = False\<rparr>) \<and>
         joinGame s sock (JStr c) pn =
           (s\<lparr>games := (games s)(c \<mapsto> g'),
              socket_players := (socket_players s)
                (sock \<mapsto> \<lparr>playerId = pid, roomId = c, name = pn\<rparr>)\<rparr>,
            [SocketEmit sock (gameJoined pid g'), RoomEmit c (playerJoined pid g')])"
    if "games s c = Some g" "players g 2 = Some None \<or> players g 3 = Some None"
    using that by (auto simp: joinGame_def find_empty_slot_2 Let_def)
  have 4: "\<exists>g1 g2 s1 s2.
         joinGame s a (JStr c) na =
           (s1, [SocketEmit a (gameJoined 2 g1), RoomEmit c (playerJoined 2 g1)]) \<and>
         joinGame s1 b (JStr c) nb =
           (s2, [SocketEmit b (gameJoined 3 g2), RoomEmit c (playerJoined 3 g2)]) \<and>
         joinGame s2 d (JStr c) nd = (s2, [SocketEmit d (error ''Room is full'')])"
    if "games s c = Some g" "players g 2 = Some None" "players g 3 = Some None"
    using that by (simp add: joinGame_def find_empty_slot_2 Let_def)
  show ?thesis using 1 2 3 4 by blast
qed

theorem joinGame_seats_witness:
  "joinGame st1 ''s2'' (JStr ''NOROOM'') (JStr ''Bob'')
     = (st1, [SocketEmit ''s2'' (error ''Room not found'')]) \<and>
   joinGame st3 ''s4'' (JStr ''ABC123'') (JStr ''Dan'')
     = (st3, [SocketEmit ''s4'' (error ''Room is full'')]) \<and>
   seat_of st2 ''s2'' = Some (''ABC123'', 2) \<and> seat_of st3 ''s3'' = Some (''ABC123'', 3)"
proof -
  have none: "games_get st1 (JStr ''NOROOM'') = None"
    by (simp add: games_get_def st1_def init_server_def createGame_def Let_def)
  have a: "joinGame st1 ''s2'' (JStr ''NOROOM'') (JStr ''Bob'')
     = (st1, [SocketEmit ''s2'' (error ''Room not found'')])"
    using none joinGame_seats [of st1 "JStr ''NOROOM''" "''s2''" "JStr ''Bob''"]
    by blast
  have b: "joinGame st3 ''s4'' (JStr ''ABC123'') (JStr ''Dan'')
     = (st3, [SocketEmit ''s4'' (error ''Room is full'')])"
    using joinGame_seats [where s = st3 and sock = "''s4''" and pn = "JStr ''Dan''",
        THEN conjunct2, THEN conjunct1, rule_format, OF st3_game]
    by simp
  have c: "seat_of st2 ''s2'' = Some (''ABC123'', 2)"
    using joinGame_seats [where s = st1 and sock = "''s2''" and pn = "JStr ''Bob''",
        THEN conjunct2, THEN conjunct2, THEN conjunct1, rule_format, OF st1_game]
    by (auto simp: seat_of_def st2_def)
  have d: "seat_of st3 ''s3'' = Some (''ABC123'', 3)"
    using joinGame_seats [where s = st2 and sock = "''s3''" and pn = JUndefined,
        THEN conjunct2, THEN conjunct2, THEN conjunct1, rule_format, OF st2_game]
    by (auto simp: seat_of_def st3_def)
  show ?thesis using a b c d by simp
qed

subsection \<open>C6: domain errors\<close>

lemma advanceTurn_no_error: "e \<in> set (snd (advanceTurn s c now)) \<Longrightarrow> \<not> is_error e"
  by (auto simp: advanceTurn_def Let_def split: option.splits)

lemma createGame_no_error: "e \<in> set (snd (createGame s sock code pn)) \<Longrightarrow> \<not> is_error e"
  by (auto simp: createGame_def Let_def)

lemma startGame_no_error: "e \<in> set (snd (startGame s rc now)) \<Longrightarrow> \<not> is_error e"
  by (auto simp: startGame_def Let_def split: option.splits)

lemma skipTurn_no_error: "e \<in> set (snd (skipTurn s sock rc now)) \<Longrightarrow> \<not> is_error e"
  by (auto simp: skipTurn_def Let_def case_prod_beta dest: advanceTurn_no_error
      split: option.splits if_splits)

lemma disconnect_no_error: "e \<in> set (snd (disconnect s sock)) \<Longrightarrow> \<not> is_error e"
  by (auto simp: disconnect_def Let_def split: option.splits)

lemma timer_callback_no_error:
  "e \<in> set (snd (timer_callback s c now now')) \<Longrightarrow> \<not> is_error e"
  by (auto simp: timer_callback_def Let_def case_prod_beta dest: advanceTurn_no_error
      split: option.splits if_splits)

lemma joinGame_error:
  assumes "joinGame s sock rc pn = (s', out)" "e \<in> set out" "is_error e"
  shows "s' = s \<and> (\<exists>m \<in> set domain_errors. out = [SocketEmit sock (error m)])"
  using assms
  by (auto simp: joinGame_def Let_def domain_errors_def split: option.splits)

lemma selectPlayer_error:
  assumes "selectPlayer s sock rc pos pd now = Inr (s', out)" "e \<in> set out" "is_error e"
  shows "s' = s \<and> (\<exists>m \<in> set domain_errors. out = [SocketEmit sock (error m)])"
  using assms
  by (auto simp: selectPlayer_def Let_def domain_errors_def case_prod_beta
      dest: advanceTurn_no_error split: option.splits if_splits)

text \<open>
  C6. When a handler emits an \<open>error\<close> message, to a socket or to a room, that message
  is all it emits, it goes to the socket that sent the event, it is one of the four
  domain errors, and the server state (every room, every participant record, the
  timers) is what it was before. A timer callback never emits an \<open>error\<close>.
\<close>

theorem domain_errors_local:
  "(handle s sock now ev = Inr (s', out) \<longrightarrow> e \<in> set out \<longrightarrow> is_error e \<longrightarrow>
      s' = s \<and> (\<exists>m \<in> set domain_errors. out = [SocketEmit sock (error m)])) \<and>
   (e \<in> set (snd (timer_callback s c now now')) \<longrightarrow> \<not> is_error e)"
proof -
  have "s' = s \<and> (\<exists>m \<in> set domain_errors. out = [SocketEmit sock (error m)])"
    if h: "handle s sock now ev = Inr (s', out)" and e: "e \<in> set out" "is_error e"
  proof (cases ev)
    case (createGameEv code pn)
    then show ?thesis using h e createGame_no_error [of e s sock code pn] by auto
  next
    case (joinGameEv rc pn)
    then show ?thesis using h e joinGame_error [of s sock rc pn s' out e] by auto
  next
    case (startGameEv rc)
    then show ?thesis using h e startGame_no_error [of e s rc now] by auto
  next
    case (selectPlayerEv rc pos pd)
    then show ?thesis using h e selectPlayer_error [of s sock rc pos pd now s' out e] by auto
  next
    case (skipTurnEv rc)
    then show ?thesis using h e skipTurn_no_error [of e s sock rc now] by auto
  next
    case disconnectEv
    then show ?thesis using h e disconnect_no_error [of e s sock] by auto
  qed
  then show ?thesis using timer_callback_no_error by blast
qed

theorem domain_errors_local_witness:
  "handle st2 ''s2'' 0 (selectPlayerEv (JStr ''ABC123'') ''QB'' (JStr ''X''))
     = Inr (st2, [SocketEmit ''s2'' (error ''Not your turn'')]) \<and>
   is_error (SocketEmit ''s2'' (error ''Not your turn'')) \<and>
   ''Not your turn'' \<in> set domain_errors"
proof -
  have h: "handle st2 ''s2'' 0 (selectPlayerEv (JStr ''ABC123'') ''QB'' (JStr ''X''))
     = Inr (st2, [SocketEmit ''s2'' (error ''Not your turn'')])"
    by (simp add: selectPlayer_def st2_game st2_player)
  have "\<exists>m \<in> set domain_errors.
      [SocketEmit ''s2'' (error ''Not your turn'')] = [SocketEmit ''s2'' (error m)]"
    using domain_errors_local [of st2 "''s2''" 0
        "selectPlayerEv (JStr ''ABC123'') ''QB'' (JStr ''X'')" st2
        "[SocketEmit ''s2'' (error ''Not your turn'')]"
        "SocketEmit ''s2'' (error ''Not your turn'')"] h
    by simp
  then show ?thesis using h by auto
qed

subsection \<open>C7: countdown timers\<close>

lemma timer_callback_expired:
  assumes "games s c = Some g" "timerEndTime g = Some t" "t \<noteq> 0" "t \<le> now"
  shows "fst (timer_callback s c now now') = s\<lparr>games := (games s)(c \<mapsto> advance_game g now')\<rparr>"
  using assms by (simp add: timer_callback_def advanceTurn_def Let_def)

lemma timer_callback_early:
  assumes "games s c = Some g" "timerEndTime g = Some t" "now < t"
  shows "games (fst (timer_callback s c now now')) = games s"
  using assms by (simp add: timer_callback_def clearInterval_def Let_def)

text \<open>
  C7. Amended: every \<open>startGame\<close> for a room of the registry starts one more countdown
  timer for it, also while others are running. A callback of a timer of the room that
  runs at or after the deadline advances the turn once and sets the deadline to
  \<open>TIMER_DURATION\<close> seconds after the advance; a callback that runs before the
  deadline, of whichever timer of the room, changes no room. So the callbacks that run
  between an expiry and the next deadline advance the turn once in all.
\<close>

theorem countdown_timers:
  "(games s c = Some g \<longrightarrow>
      count_list (intervals (fst (startGame s (JStr c) now))) c = count_list (intervals s) c + 1) \<and>
   (games s c = Some g \<longrightarrow> timerEndTime g = Some t \<longrightarrow> t \<noteq> 0 \<longrightarrow> t \<le> now \<longrightarrow>
      games (fst (timer_callback s c now now')) = (games s)(c \<mapsto> advance_game g now') \<and>
      timerEndTime (advance_game g now') = Some (now' + TIMER_DURATION g * 1000) \<and>
      intervals (fst (timer_callback s c now now')) = intervals s) \<and>
   (games s c = Some g \<longrightarrow> timerEndTime g = Some t \<longrightarrow> now < t \<longrightarrow>
      games (fst (timer_callback s c now now')) = games s) \<and>
   (games s c = Some g \<longrightarrow> timerEndTime g = Some t \<longrightarrow> t \<noteq> 0 \<longrightarrow> t \<le> now \<longrightarrow>
      now2 < now' + TIMER_DURATION g * 1000 \<longrightarrow>
      games (fst (timer_callback (fst (timer_callback s c now now')) c now2 now2'))
        = games (fst (timer_callback s c now now')))"
proof -
  have 1: "count_list (intervals (fst (startGame s (JStr c) now))) c = count_list (intervals s) c + 1"
    if "games s c = Some g"
    using that by (simp add: startGame_def startTimerBroadcast_def Let_def)
  have 2: "games (fst (timer_callback s c now now')) = (games s)(c \<mapsto> advance_game g now') \<and>
      timerEndTime (advance_game g now') = Some (now' + TIMER_DURATION g * 1000) \<and>
      intervals (fst (timer_callback s c now now')) = intervals s"
    if "games s c = Some g" "timerEndTime g = Some t" "t \<noteq> 0" "t \<le> now"
    using timer_callback_expired [OF that] by (simp add: advance_game_def)
  have 3: "games (fst (timer_callback s c now now')) = games s"
    if "games s c = Some g" "timerEndTime g = Some t" "now < t"
    using that by (rule timer_callback_early)
  have 4: "games (fst (timer_callback (fst (timer_callback s c now now')) c now2 now2'))
        = games (fst (timer_callback s c now now'))"
    if h: "games s c = Some g" "timerEndTime g = Some t" "t \<noteq> 0" "t \<le> now"
      and before: "now2 < now' + TIMER_DURATION g * 1000"
  proof -
    let ?s = "fst (timer_callback s c now now')"
    have "games ?s c = Some (advance_game g now')"
      using 2 [OF h] by simp
    moreover have "timerEndTime (advance_game g now') = Some (now' + TIMER_DURATION g * 1000)"
      by (simp add: advance_game_def)
    ultimately show ?thesis using before by (rule timer_callback_early)
  qed
  show ?thesis using 1 2 3 4 by blast
qed

theorem countdown_timers_witness:
  "room_deadline (fst (startGame st1 (JStr ''ABC123'') 0)) ''ABC123'' = Some 15000 \<and>
   count_list (intervals (fst (startGame st1 (JStr ''ABC123'') 0))) ''ABC123'' = 1 \<and>
   room_turn (fst (timer_callback (fst (startGame st1 (JStr ''ABC123'') 0)) ''ABC123'' 14900 14900))
     ''ABC123'' = Some 1 \<and>
   room_turn (fst (timer_callback (fst (startGame st1 (JStr ''ABC123'') 0)) ''ABC123'' 15000 15001))
     ''ABC123'' = Some 2 \<and>
   room_turn (fst (timer_callback
       (fst (timer_callback (fst (startGame st1 (JStr ''ABC123'') 0)) ''ABC123'' 15000 15001))
       ''ABC123'' 15100 15100)) ''ABC123'' = Some 2"
proof -
  let ?g = "\<lparr>roomCode = ''ABC123'',
      players = [1 \<mapsto> Some \<lparr>occ_id = ''s1'', occ_name = JStr ''Ann'', ready = False\<rparr>,
                 2 \<mapsto> None, 3 \<mapsto> None],
      rosters = [1 \<mapsto> Map.empty, 2 \<mapsto> Map.empty, 3 \<mapsto> Map.empty],
      currentTurn = 1, timerEndTime = Some 15000, TIMER_DURATION = 15\<rparr>"
  let ?s = "fst (startGame st1 (JStr ''ABC123'') 0)"
  have g: "games ?s ''ABC123'' = Some ?g"
    by (simp add: startGame_def startTimerBroadcast_def st1_game Let_def)
  have t: "timerEndTime ?g = Some 15000" by simp
  have n: "intervals st1 = []"
    by (simp add: st1_def createGame_def init_server_def Let_def)
  note T = countdown_timers [where s = ?s and c = "''ABC123''" and g = ?g and t = 15000]
  have a: "count_list (intervals (fst (startGame st1 (JStr ''ABC123'') 0))) ''ABC123'' = 1"
    using countdown_timers [where s = st1 and c = "''ABC123''" and now = 0,
        THEN conjunct1, rule_format, OF st1_game] n
    by simp
  have b: "games (fst (timer_callback ?s ''ABC123'' 14900 14900)) = games ?s"
    using T [where now = 14900 and now' = 14900, THEN conjunct2, THEN conjunct2, THEN conjunct1,
        rule_format, OF g t]
    by simp
  have c: "games (fst (timer_callback ?s ''ABC123'' 15000 15001))
      = (games ?s)(''ABC123'' \<mapsto> advance_game ?g 15001)"
    using T [where now = 15000 and now' = 15001, THEN conjunct2, THEN conjunct1,
        rule_format, OF g t]
    by simp
  have d: "games (fst (timer_callback (fst (timer_callback ?s ''ABC123'' 15000 15001))
        ''ABC123'' 15100 15100)) = games (fst (timer_callback ?s ''ABC123'' 15000 15001))"
    using T [where now = 15000 and now' = 15001 and ?now2.0 = 15100 and now2' = 15100,
        THEN conjunct2, THEN conjunct2, THEN conjunct2, rule_format, OF g t]
    by simp
  show ?thesis
    using a by (simp add: room_turn_def room_deadline_def b c d g advance_game_def)
qed

text \<open>
  C7 as stated fails: a second \<open>startGame\<close> for a room whose countdown timer is
  running starts a second timer for the room.
\<close>

theorem startGame_twice_counterexample:
  "intervals (fst (startGame st1 (JStr ''ABC123'') 0)) = [''ABC123''] \<and>
   intervals (fst (startGame (fst (startGame st1 (JStr ''ABC123'') 0)) (JStr ''ABC123'') 5000))
     = [''ABC123'', ''ABC123'']"
proof -
  have n: "intervals st1 = []"
    by (simp add: st1_def createGame_def init_server_def Let_def)
  show ?thesis
    by (simp add: startGame_def startTimerBroadcast_def st1_game Let_def n)
qed

subsection \<open>C8: the room of the sender\<close>

text \<open>
  C8. The code breaks the claim: the handler takes the room from the event and the seat
  from the record of the sender, and never compares the room of the record with the
  room of the event. Socket \<open>s1\<close> holds seat 1 of room \<open>ABC123\<close> and nothing in room
  \<open>XYZ789\<close>, whose seat 1 is socket \<open>s2\<close>; its \<open>selectPlayer\<close> naming \<open>XYZ789\<close>
  fills \<open>QB\<close> in the roster of seat 1 of \<open>XYZ789\<close> and advances the turn there.
\<close>

theorem select_in_foreign_room:
  "seat_of (fst (createGame st1 ''s2'' ''XYZ789'' (JStr ''Bob''))) ''s1'' = Some (''ABC123'', 1) \<and>
   room_seat (fst (createGame st1 ''s2'' ''XYZ789'' (JStr ''Bob''))) ''XYZ789'' 1
     = Some (Some \<lparr>occ_id = ''s2'', occ_name = JStr ''Bob'', ready = False\<rparr>) \<and>
   room_seat (fst (createGame st1 ''s2'' ''XYZ789'' (JStr ''Bob''))) ''XYZ789'' 2 = Some None \<and>
   room_seat (fst (createGame st1 ''s2'' ''XYZ789'' (JStr ''Bob''))) ''XYZ789'' 3 = Some None \<and>
   room_slot (fst (createGame st1 ''s2'' ''XYZ789'' (JStr ''Bob''))) ''XYZ789'' 1 ''QB'' = None \<and>
   (case selectPlayer (fst (createGame st1 ''s2'' ''XYZ789'' (JStr ''Bob'')))
           ''s1'' (JStr ''XYZ789'') ''QB'' (JObj [(''name'', JStr ''X'')]) 1000 of
      Inl e \<Rightarrow> False
    | Inr (a, out) \<Rightarrow>
        map is_error out = [False, False] \<and>
        room_slot a ''XYZ789'' 1 ''QB'' = Some (JObj [(''name'', JStr ''X'')]) \<and>
        room_turn a ''XYZ789'' = Some 2)"
proof -
  let ?s = "fst (createGame st1 ''s2'' ''XYZ789'' (JStr ''Bob''))"
  let ?g = "\<lparr>roomCode = ''XYZ789'',
      players = [1 \<mapsto> Some \<lparr>occ_id = ''s2'', occ_name = JStr ''Bob'', ready = False\<rparr>,
                 2 \<mapsto> None, 3 \<mapsto> None],
      rosters = [1 \<mapsto> Map.empty, 2 \<mapsto> Map.empty, 3 \<mapsto> Map.empty],
      currentTurn = 1, timerEndTime = None, TIMER_DURATION = 15\<rparr>"
  let ?g1 = "?g\<lparr>rosters := [1 \<mapsto> [''QB'' \<mapsto> JObj [(''name'', JStr ''X'')]],
                              2 \<mapsto> Map.empty, 3 \<mapsto> Map.empty],
                currentTurn := 2, timerEndTime := Some 16000\<rparr>"
  have g: "games ?s ''XYZ789'' = Some ?g"
    by (simp add: createGame_def Let_def js_or_def)
  have p: "socket_players ?s ''s1''
      = Some \<lparr>playerId = 1, roomId = ''ABC123'', name = JStr ''Ann''\<rparr>"
    by (simp add: createGame_def Let_def st1_player)
  have sel: "selectPlayer ?s ''s1'' (JStr ''XYZ789'') ''QB'' (JObj [(''name'', JStr ''X'')]) 1000
      = Inr (?s\<lparr>games := (games ?s)(''XYZ789'' \<mapsto> ?g1)\<rparr>,
             [RoomEmit ''XYZ789'' (playerSelected 1 ''QB'' (JObj [(''name'', JStr ''X'')]) (rosters ?g1)),
              RoomEmit ''XYZ789'' (turnChanged 2 (Some 16000))])"
    by (simp add: selectPlayer_def g p slot_truthy_def Object_prototype_keys_def
        advanceTurn_def advance_game_def Let_def fun_upd_twist)
  show ?thesis
    unfolding sel sum.case prod.case
    by (simp add: seat_of_def room_seat_def room_slot_def room_turn_def g p)
qed

subsection \<open>C9: disconnect\<close>

text \<open>
  C9. When a socket with a participant record disconnects and the room of the record
  is in the registry, the seat of the record becomes \<open>null\<close> in that room, the record
  is deleted, \<open>playerDisconnected\<close> is sent to the room, and nothing else changes: the
  turn, the rosters, the deadline and the other seats of the room, the other rooms, the
  other records and the timers. In a reachable state the room of a record is always in
  the registry.
\<close>

theorem disconnect_frame:
  assumes "socket_players s sock = Some p" and "games s (roomId p) = Some g"
  shows "\<exists>g'. disconnect s sock =
           (s\<lparr>games := (games s)(roomId p \<mapsto> g'),
              socket_players := (socket_players s)(sock := None)\<rparr>,
            [RoomEmit (roomId p) (playerDisconnected (playerId p) g')]) \<and>
         g' = g\<lparr>players := (players g)(playerId p \<mapsto> None)\<rparr> \<and>
         players g' (playerId p) = Some None \<and>
         (\<forall>i. i \<noteq> playerId p \<longrightarrow> players g' i = players g i) \<and>
         currentTurn g' = currentTurn g \<and> rosters g' = rosters g \<and>
         timerEndTime g' = timerEndTime g \<and> roomCode g' = roomCode g \<and>
         TIMER_DURATION g' = TIMER_DURATION g \<and>
         (\<forall>c. c \<noteq> roomId p \<longrightarrow> games (fst (disconnect s sock)) c = games s c) \<and>
         (\<forall>x. x \<noteq> sock \<longrightarrow> socket_players (fst (disconnect s sock)) x = socket_players s x) \<and>
         socket_players (fst (disconnect s sock)) sock = None \<and>
         intervals (fst (disconnect s sock)) = intervals s \<and>
         (reachable s \<longrightarrow> (\<forall>x q. socket_players s x = Some q \<longrightarrow> games s (roomId q) \<noteq> None))"
proof -
  let ?g = "g\<lparr>players := (players g)(playerId p \<mapsto> None)\<rparr>"
  have d: "disconnect s sock =
           (s\<lparr>games := (games s)(roomId p \<mapsto> ?g),
              socket_players := (socket_players s)(sock := None)\<rparr>,
            [RoomEmit (roomId p) (playerDisconnected (playerId p) ?g)])"
    using assms by (simp add: disconnect_def Let_def)
  have r: "games s (roomId q) \<noteq> None" if "reachable s" "socket_players s x = Some q" for x q
    using that server_ok_player [OF reachable_server_ok] by blast
  show ?thesis
    using r by (intro exI [of _ ?g]) (simp add: d)
qed

theorem disconnect_frame_witness:
  "seat_of st2 ''s1'' = Some (''ABC123'', 1) \<and>
   room_seat (fst (disconnect st2 ''s1'')) ''ABC123'' 1 = Some None \<and>
   room_seat (fst (disconnect st2 ''s1'')) ''ABC123'' 2 = room_seat st2 ''ABC123'' 2 \<and>
   room_turn (fst (disconnect st2 ''s1'')) ''ABC123'' = Some 1 \<and>
   seat_of (fst (disconnect st2 ''s1'')) ''s1'' = None"
proof -
  have p: "socket_players st2 ''s1'' = Some \<lparr>playerId = 1, roomId = ''ABC123'', name = JStr ''Ann''\<rparr>"
    by (simp add: st2_def joinGame_def st1_game find_empty_slot_2 Let_def st1_player)
  have g: "games st2 (roomId \<lparr>playerId = 1, roomId = ''ABC123'', name = JStr ''Ann''\<rparr>) = games st2 ''ABC123''"
    by simp
  note D = disconnect_frame [OF p g [unfolded st2_game]]
  from D show ?thesis
    by (auto simp: seat_of_def room_seat_def room_turn_def p st2_game)
qed

subsection \<open>C10: the frame of a select\<close>

text \<open>
  C10. A \<open>selectPlayer\<close> of the seat whose turn it is, for a position that does not
  test as filled, writes the one entry \<open>rosters[seat][positionId]\<close> and then calls
  \<open>advanceTurn\<close> once: every other roster, every other position of this roster and
  the seats are as before, the turn and the deadline are those \<open>advanceTurn\<close> sets, and
  the two messages are \<open>playerSelected\<close> and then \<open>turnChanged\<close>, to the room.
\<close>

theorem selectPlayer_frame:
  assumes "games s c = Some g" and "socket_players s sock = Some p"
    and "currentTurn g = playerId p" and "rosters g (playerId p) = Some r"
    and "\<not> slot_truthy r pos"
  shows "\<exists>g' s' w.
         w = g\<lparr>rosters := (rosters g)(playerId p \<mapsto> r(pos \<mapsto> pd))\<rparr> \<and>
         g' = advance_game w now \<and>
         s' = fst (advanceTurn (s\<lparr>games := (games s)(c \<mapsto> w)\<rparr>) c now) \<and>
         s' = s\<lparr>games := (games s)(c \<mapsto> g')\<rparr> \<and>
         selectPlayer s sock (JStr c) pos pd now =
           Inr (s', [RoomEmit c (playerSelected (playerId p) pos pd (rosters g')),
                     RoomEmit c (turnChanged (currentTurn g') (timerEndTime g'))]) \<and>
         (\<exists>r'. rosters g' (playerId p) = Some r' \<and> r' pos = Some pd \<and>
               (\<forall>k. k \<noteq> pos \<longrightarrow> r' k = r k)) \<and>
         (\<forall>i. i \<noteq> playerId p \<longrightarrow> rosters g' i = rosters g i) \<and>
         players g' = players g \<and> roomCode g' = roomCode g \<and>
         TIMER_DURATION g' = TIMER_DURATION g \<and>
         currentTurn g' = (if currentTurn g = 3 then 1 else currentTurn g + 1) \<and>
         timerEndTime g' = Some (now + TIMER_DURATION g * 1000) \<and>
         (\<forall>c'. c' \<noteq> c \<longrightarrow> games s' c' = games s c') \<and>
         socket_players s' = socket_players s \<and> intervals s' = intervals s"
proof -
  let ?w = "g\<lparr>rosters := (rosters g)(playerId p \<mapsto> r(pos \<mapsto> pd))\<rparr>"
  let ?g = "advance_game ?w now"
  let ?s = "s\<lparr>games := (games s)(c \<mapsto> ?g)\<rparr>"
  have adv: "advanceTurn (s\<lparr>games := (games s)(c \<mapsto> ?w)\<rparr>) c now
      = (?s, [RoomEmit c (turnChanged (currentTurn ?g) (timerEndTime ?g))])"
    by (simp add: advanceTurn_def Let_def)
  have sel: "selectPlayer s sock (JStr c) pos pd now =
           Inr (?s, [RoomEmit c (playerSelected (playerId p) pos pd (rosters ?g)),
                     RoomEmit c (turnChanged (currentTurn ?g) (timerEndTime ?g))])"
    using assms by (simp add: selectPlayer_def adv Let_def) (simp add: advance_game_def)
  show ?thesis
    by (intro exI [of _ ?g] exI [of _ ?s] exI [of _ ?w])
       (simp add: sel adv, simp add: advance_game_def)
qed

theorem selectPlayer_frame_witness:
  "room_slot st2 ''ABC123'' 1 ''QB'' = None \<and>
   (case selectPlayer st2 ''s1'' (JStr ''ABC123'') ''QB'' (JObj [(''name'', JStr ''X'')]) 1000 of
      Inl e \<Rightarrow> False
    | Inr (s', out) \<Rightarrow>
        room_slot s' ''ABC123'' 1 ''QB'' = Some (JObj [(''name'', JStr ''X'')]) \<and>
        room_slot s' ''ABC123'' 1 ''RB'' = None \<and>
        room_slot s' ''ABC123'' 2 ''QB'' = None \<and>
        room_seat s' ''ABC123'' 2 = room_seat st2 ''ABC123'' 2 \<and>
        room_turn s' ''ABC123'' = Some 2 \<and>
        room_deadline s' ''ABC123'' = Some 16000 \<and>
        length out = 2)"
proof -
  have p: "socket_players st2 ''s1''
      = Some \<lparr>playerId = 1, roomId = ''ABC123'', name = JStr ''Ann''\<rparr>"
    by (simp add: st2_def joinGame_def st1_game find_empty_slot_2 Let_def st1_player)
  have free: "\<not> slot_truthy Map.empty ''QB''"
    by (simp add: slot_truthy_def Object_prototype_keys_def)
  from selectPlayer_frame [OF st2_game p _ _ free, of "JObj [(''name'', JStr ''X'')]" 1000]
  obtain s' g' where
    sel: "selectPlayer st2 ''s1'' (JStr ''ABC123'') ''QB'' (JObj [(''name'', JStr ''X'')]) 1000 =
           Inr (s', [RoomEmit ''ABC123'' (playerSelected 1 ''QB'' (JObj [(''name'', JStr ''X'')]) (rosters g')),
                     RoomEmit ''ABC123'' (turnChanged (currentTurn g') (timerEndTime g'))])"
    and s': "s' = st2\<lparr>games := (games st2)(''ABC123'' \<mapsto> g')\<rparr>"
    and g': "g' = advance_game
       (\<lparr>roomCode = ''ABC123'',
      players = [1 \<mapsto> Some \<lparr>occ_id = ''s1'', occ_name = JStr ''Ann'', ready = False\<rparr>,
                 2 \<mapsto> Some \<lparr>occ_id = ''s2'', occ_name = JStr ''Bob'', ready = False\<rparr>,
                 3 \<mapsto> None],
      rosters = [1 \<mapsto> Map.empty, 2 \<mapsto> Map.empty, 3 \<mapsto> Map.empty],
      currentTurn = 1, timerEndTime = None, TIMER_DURATION = 15\<rparr>
         \<lparr>rosters := [1 \<mapsto> Map.empty, 2 \<mapsto> Map.empty, 3 \<mapsto> Map.empty]
            (1 \<mapsto> Map.empty(''QB'' \<mapsto> JObj [(''name'', JStr ''X'')]))\<rparr>) 1000"
    by auto
  show ?thesis
    by (simp add: sel s' g' room_slot_def room_seat_def room_turn_def room_deadline_def
        st2_game advance_game_def)
qed

end
